theory Spec2Isabelle
  imports Complex_Main
begin

section \<open>Synthetic trajectories and plots of \<open>plot_learning_curves.py\<close>\<close>

text \<open>
  The script has two halves: generators that build pandas tables from numpy arrays and
  random draws, and renderers that turn a table into one image file. The embedding keeps
  both as the script has them.

  \<^item> Python integers are \<open>int\<close>; numpy's float64 values are idealised as \<open>real\<close>
    (no rounding, no NaN or infinity).
  \<^item> An exception is a value of \<open>error\<close>; a function that can raise returns
    \<open>error + 'a\<close>.
  \<^item> The random generator is explicit state: a stream of standard normal variates, a
    stream of uniform variates and the number of variates consumed so far. Quantifying
    over the state quantifies over every noise realisation.
  \<^item> A table is its index length together with its named columns, in order.
  \<^item> The renderers act on a \<open>world\<close>: matplotlib's open figures, the directories
    made, the files written and the console.
\<close>

subsection \<open>Exceptions\<close>

datatype error = ValueError | IndexError | KeyError | ZeroDivisionError

definition bind_err :: "error + 'a \<Rightarrow> ('a \<Rightarrow> error + 'b) \<Rightarrow> error + 'b" where
  "bind_err m f = (case m of Inl e \<Rightarrow> Inl e | Inr x \<Rightarrow> f x)"

subsection \<open>Tables\<close>

datatype column = IntCol "int list" | FloatCol "real list"

fun col_len :: "column \<Rightarrow> nat" where
  "col_len (IntCol xs) = length xs"
| "col_len (FloatCol xs) = length xs"

record dataframe =
  index_len :: nat
  columns :: "(string \<times> column) list"

text \<open>\<open>pd.DataFrame()\<close>: no rows and no columns.\<close>

definition empty_DataFrame :: dataframe where
  "empty_DataFrame = \<lparr>index_len = 0, columns = []\<rparr>"

text \<open>
  \<open>pd.DataFrame(dict)\<close>: the columns in the dictionary's order; pandas raises
  ValueError when the arrays differ in length.
\<close>

definition DataFrame :: "(string \<times> column) list \<Rightarrow> error + dataframe" where
  "DataFrame d =
     (case d of
        [] \<Rightarrow> Inr empty_DataFrame
      | c # cs \<Rightarrow>
          if list_all (\<lambda>k. col_len (snd k) = col_len (snd c)) cs
          then Inr \<lparr>index_len = col_len (snd c), columns = d\<rparr>
          else Inl ValueError)"

text \<open>\<open>len(df)\<close>, \<open>df.empty\<close>, \<open>name in df.columns\<close>, \<open>df[name]\<close>.\<close>

definition len_df :: "dataframe \<Rightarrow> nat" where
  "len_df df = index_len df"

definition df_empty :: "dataframe \<Rightarrow> bool" where
  "df_empty df = (index_len df = 0 \<or> columns df = [])"

definition column_names :: "dataframe \<Rightarrow> string list" where
  "column_names df = map fst (columns df)"

definition has_column :: "dataframe \<Rightarrow> string \<Rightarrow> bool" where
  "has_column df name = (name \<in> set (column_names df))"

definition get_column :: "dataframe \<Rightarrow> string \<Rightarrow> error + column" where
  "get_column df name =
     (case map_of (columns df) name of None \<Rightarrow> Inl KeyError | Some c \<Rightarrow> Inr c)"

text \<open>
  \<open>df[name] = c\<close>: an existing column is replaced where it stands, a new one is
  appended; a column of another length than the index raises ValueError.
\<close>

fun replace_column :: "string \<Rightarrow> column \<Rightarrow> (string \<times> column) list \<Rightarrow> (string \<times> column) list" where
  "replace_column name c [] = [(name, c)]"
| "replace_column name c (k # ks) =
     (if fst k = name then (name, c) # ks else k # replace_column name c ks)"

definition set_column :: "dataframe \<Rightarrow> string \<Rightarrow> column \<Rightarrow> error + dataframe" where
  "set_column df name c =
     (if col_len c = index_len df
      then Inr (df\<lparr>columns := replace_column name c (columns df)\<rparr>)
      else Inl ValueError)"

text \<open>\<open>Series.clip(lower, upper)\<close> with the integer bounds the script passes.\<close>

fun clip :: "int \<Rightarrow> int \<Rightarrow> column \<Rightarrow> column" where
  "clip lower upper (IntCol xs) = IntCol (map (\<lambda>v. min (max v lower) upper) xs)"
| "clip lower upper (FloatCol xs) =
     FloatCol (map (\<lambda>v. min (max v (real_of_int lower)) (real_of_int upper)) xs)"

text \<open>\<open>df[name] = df[name].clip(lower, upper)\<close>.\<close>

definition clip_column :: "string \<Rightarrow> int \<Rightarrow> int \<Rightarrow> dataframe \<Rightarrow> error + dataframe" where
  "clip_column name lower upper df =
     bind_err (get_column df name) (\<lambda>c. set_column df name (clip lower upper c))"

subsection \<open>numpy\<close>

text \<open>
  \<open>np.arange(start, stop, step)\<close> on integers: \<open>ceil((stop - start) / step)\<close> values,
  none when that is negative; a zero step raises ZeroDivisionError.
\<close>

definition arange_len :: "int \<Rightarrow> int \<Rightarrow> int \<Rightarrow> nat" where
  "arange_len start stop step = nat (- ((start - stop) div step))"

definition arange :: "int \<Rightarrow> int \<Rightarrow> int \<Rightarrow> error + int list" where
  "arange start stop step =
     (if step = 0 then Inl ZeroDivisionError
      else Inr (map (\<lambda>i. start + int i * step) [0..<arange_len start stop step]))"

text \<open>
  The generator state. \<open>np.random.normal(loc, scale, size)\<close> returns \<open>size\<close> values
  \<open>loc + scale * z\<close> for the next standard normal variates \<open>z\<close>, and raises ValueError
  for a negative scale or size; \<open>np.random.rand(size)\<close> returns the next \<open>size\<close>
  uniform variates.
\<close>

record rng =
  std_normal :: "nat \<Rightarrow> real"
  uniform01 :: "nat \<Rightarrow> real"
  used :: nat

definition random_normal :: "real \<Rightarrow> real \<Rightarrow> int \<Rightarrow> rng \<Rightarrow> error + (real list \<times> rng)" where
  "random_normal loc scale sz g =
     (if scale < 0 \<or> sz < 0 then Inl ValueError
      else Inr (map (\<lambda>i. loc + scale * std_normal g (used g + i)) [0..<nat sz],
                g\<lparr>used := used g + nat sz\<rparr>))"

definition random_rand :: "int \<Rightarrow> rng \<Rightarrow> error + (real list \<times> rng)" where
  "random_rand sz g =
     (if sz < 0 then Inl ValueError
      else Inr (map (\<lambda>i. uniform01 g (used g + i)) [0..<nat sz],
                g\<lparr>used := used g + nat sz\<rparr>))"

text \<open>\<open>a[-1]\<close>: IndexError on an empty array.\<close>

definition last_item :: "'a list \<Rightarrow> error + 'a" where
  "last_item xs = (case xs of [] \<Rightarrow> Inl IndexError | _ # _ \<Rightarrow> Inr (last xs))"

subsection \<open>The generators\<close>

text \<open>
  Elementwise numpy arithmetic is \<open>map\<close> and \<open>map2\<close>; the arrays combined in one
  expression are built with one length, so no broadcasting error can arise. The random
  calls run in the order in which Python evaluates the dictionary's entries.
\<close>

definition generate_dummy_maml_trajectory :: "int \<Rightarrow> int \<Rightarrow> rng \<Rightarrow> error + (dataframe \<times> rng)" where
  "generate_dummy_maml_trajectory epochs log_interval g =
     bind_err (arange log_interval (epochs + 1) log_interval) (\<lambda>steps.
     bind_err (random_normal 0 0.02 (int (length steps)) g) (\<lambda>(n1, g1).
     bind_err (random_normal 0 0.02 (int (length steps)) g1) (\<lambda>(n2, g2).
     bind_err (random_normal 0 0.05 (int (length steps)) g2) (\<lambda>(n3, g3).
     bind_err (DataFrame
       [(''log_step'', IntCol steps),
        (''val_loss'', FloatCol (map2 (+)
           (map (\<lambda>s. 0.7 - 0.3 * (1 - exp (- real_of_int s / (real_of_int epochs * 0.3)))) steps) n1)),
        (''val_accuracy'', FloatCol (map2 (+)
           (map (\<lambda>s. 0.5 + 0.4 * (1 - exp (- real_of_int s / (real_of_int epochs * 0.4)))) steps) n2)),
        (''grad_alignment'', FloatCol (map2 (+)
           (map (\<lambda>s. 0.1 + 0.6 * (1 - exp (- real_of_int s / (real_of_int epochs * 0.5)))) steps) n3))])
       (\<lambda>df.
     bind_err (clip_column ''val_accuracy'' 0 1 df) (\<lambda>df'.
     Inr (df', g3)))))))"

definition generate_dummy_sgd_trajectory :: "int \<Rightarrow> rng \<Rightarrow> error + (dataframe \<times> rng)" where
  "generate_dummy_sgd_trajectory num_tasks g =
     bind_err (arange 0 num_tasks 1) (\<lambda>task_idx.
     bind_err (random_normal 0 0.03 num_tasks g) (\<lambda>(n1, g1).
     bind_err (random_normal 0 0.03 num_tasks g1) (\<lambda>(n2, g2).
     bind_err (random_rand num_tasks g2) (\<lambda>(u, g3).
     bind_err (DataFrame
       [(''task_idx'', IntCol task_idx),
        (''query_loss'', FloatCol (map2 (+)
           (map (\<lambda>t. 0.6 - 0.2 * (1 - exp (- real_of_int t / (real_of_int num_tasks * 0.5)))) task_idx) n1)),
        (''query_accuracy'', FloatCol (map2 (+)
           (map (\<lambda>t. 0.55 + 0.3 * (1 - exp (- real_of_int t / (real_of_int num_tasks * 0.6)))) task_idx) n2)),
        (''final_support_loss'', FloatCol (map (\<lambda>r. r * 0.1) u)),
        (''num_sgd_steps'', IntCol (replicate (nat num_tasks) 100)),
        (''lr'', FloatCol (replicate (nat num_tasks) 0.001))])
       (\<lambda>df.
     bind_err (clip_column ''query_accuracy'' 0 1 df) (\<lambda>df'.
     Inr (df', g3)))))))"

definition generate_dummy_drift_data :: "int \<Rightarrow> string \<Rightarrow> real \<Rightarrow> real \<Rightarrow> rng \<Rightarrow> error + (dataframe \<times> rng)" where
  "generate_dummy_drift_data num_points type final_drift_mean final_drift_std g =
     (if type = ''maml'' then
        bind_err (arange 1 (num_points + 1) 1) (\<lambda>r.
        let epochs = map (\<lambda>x. x * 100) r in
        bind_err (random_normal 0 0.1 num_points g) (\<lambda>(n1, g1).
        let drift_from_init = map2 (+)
              (map (\<lambda>e. final_drift_mean *
                 (1 - exp (- real_of_int e / (real_of_int (num_points * 100) * 0.4)))) epochs) n1 in
        bind_err (random_normal 0.1 0.05 num_points g1) (\<lambda>(n2, g2).
        bind_err (last_item epochs) (\<lambda>final.
        let drift_from_prev = map2
              (\<lambda>z e. \<bar>z * (final_drift_mean / real_of_int final) *
                 (real_of_int final - real_of_int e / 2) / (real_of_int final / 2)\<bar>) n2 epochs in
        bind_err (DataFrame
          [(''epoch'', IntCol epochs),
           (''l2_drift_from_init'', FloatCol drift_from_init),
           (''l2_drift_from_previous'', FloatCol drift_from_prev)])
          (\<lambda>df. Inr (df, g2))))))
      else if type = ''sgd'' then
        bind_err (random_normal (final_drift_mean * 0.8) final_drift_std num_points g) (\<lambda>(drifts, g1).
        bind_err (DataFrame [(''final_l2_drift_from_init'', FloatCol (map abs drifts))])
          (\<lambda>df. Inr (df, g1)))
      else Inr (empty_DataFrame, g))"

subsection \<open>matplotlib, seaborn and the operating system\<close>

text \<open>
  A figure is the record of what was drawn on each of its axes, in call order. Keyword
  arguments that only style the picture (figure size, colours, line style, density
  overlay, bin count, text alignment) are left out. seaborn raises ValueError when a
  column named for \<open>x\<close> or \<open>y\<close> is not in \<open>data\<close>. The operating system is taken
  to accept every directory creation and every write; \<open>written\<close> lists the writes in
  order.
\<close>

datatype draw =
    LinePlot string string string
  | HistPlot string
  | TextAt real real string
  | Title string
  | XLabel string
  | YLabel string
  | XLim real real
  | YLim real real
  | Legend

record figure =
  axes :: "draw list list"
  suptitle :: "string option"
  tight :: bool

record world =
  open_figs :: "figure list"
  dirs :: "string list"
  written :: "(string \<times> figure) list"
  console :: "string list"

type_synonym action = "world \<Rightarrow> error option \<times> world"

text \<open>Statements in sequence: the first exception ends the run.\<close>

fun run :: "action list \<Rightarrow> action" where
  "run [] w = (None, w)"
| "run (a # as) w = (case a w of (None, w') \<Rightarrow> run as w' | (Some e, w') \<Rightarrow> (Some e, w'))"

definition skip :: action where
  "skip w = (None, w)"

definition raise :: "error \<Rightarrow> action" where
  "raise e w = (Some e, w)"

text \<open>\<open>fig, axs = plt.subplots(nrows, ncols)\<close>: the new figure becomes the current one.\<close>

definition subplots :: "nat \<Rightarrow> nat \<Rightarrow> action" where
  "subplots nrows ncols w =
     (None, w\<lparr>open_figs :=
        \<lparr>axes = replicate (nrows * ncols) [], suptitle = None, tight = False\<rparr> # open_figs w\<rparr>)"

text \<open>A call on \<open>axs[i]\<close> of the figure the renderer has just made.\<close>

definition on_ax :: "nat \<Rightarrow> draw \<Rightarrow> action" where
  "on_ax i d w =
     (case open_figs w of
        [] \<Rightarrow> (Some IndexError, w)
      | f # fs \<Rightarrow>
          if i < length (axes f)
          then (None, w\<lparr>open_figs := f\<lparr>axes := (axes f)[i := axes f ! i @ [d]]\<rparr> # fs\<rparr>)
          else (Some IndexError, w))"

definition lineplot :: "nat \<Rightarrow> string \<Rightarrow> string \<Rightarrow> dataframe \<Rightarrow> string \<Rightarrow> action" where
  "lineplot ax x y data label =
     (if has_column data x \<and> has_column data y then on_ax ax (LinePlot x y label)
      else raise ValueError)"

definition histplot :: "nat \<Rightarrow> dataframe \<Rightarrow> string \<Rightarrow> action" where
  "histplot ax data x =
     (if has_column data x then on_ax ax (HistPlot x) else raise ValueError)"

definition set_title :: "nat \<Rightarrow> string \<Rightarrow> action" where
  "set_title ax s = on_ax ax (Title s)"

definition set_xlabel :: "nat \<Rightarrow> string \<Rightarrow> action" where
  "set_xlabel ax s = on_ax ax (XLabel s)"

definition set_ylabel :: "nat \<Rightarrow> string \<Rightarrow> action" where
  "set_ylabel ax s = on_ax ax (YLabel s)"

definition set_xlim :: "nat \<Rightarrow> real \<Rightarrow> real \<Rightarrow> action" where
  "set_xlim ax lo hi = on_ax ax (XLim lo hi)"

definition set_ylim :: "nat \<Rightarrow> real \<Rightarrow> real \<Rightarrow> action" where
  "set_ylim ax lo hi = on_ax ax (YLim lo hi)"

definition legend :: "nat \<Rightarrow> action" where
  "legend ax = on_ax ax Legend"

definition ax_text :: "nat \<Rightarrow> real \<Rightarrow> real \<Rightarrow> string \<Rightarrow> action" where
  "ax_text ax x y s = on_ax ax (TextAt x y s)"

text \<open>
  The \<open>plt\<close> functions act on the current figure; matplotlib makes an empty one when
  none is open.
\<close>

definition gcf :: "world \<Rightarrow> figure \<times> figure list" where
  "gcf w =
     (case open_figs w of
        [] \<Rightarrow> (\<lparr>axes = [], suptitle = None, tight = False\<rparr>, [])
      | f # fs \<Rightarrow> (f, fs))"

definition plt_suptitle :: "string \<Rightarrow> action" where
  "plt_suptitle s w =
     (case gcf w of (f, fs) \<Rightarrow> (None, w\<lparr>open_figs := f\<lparr>suptitle := Some s\<rparr> # fs\<rparr>))"

definition tight_layout :: action where
  "tight_layout w =
     (case gcf w of (f, fs) \<Rightarrow> (None, w\<lparr>open_figs := f\<lparr>tight := True\<rparr> # fs\<rparr>))"

definition savefig :: "string \<Rightarrow> action" where
  "savefig path w =
     (case gcf w of (f, fs) \<Rightarrow>
        (None, w\<lparr>open_figs := f # fs, written := written w @ [(path, f)]\<rparr>))"

text \<open>\<open>plt.close(fig)\<close> for the figure the renderer has made.\<close>

definition close :: action where
  "close w = (None, w\<lparr>open_figs := tl (open_figs w)\<rparr>)"

text \<open>\<open>os.makedirs(path, exist_ok=True)\<close> and \<open>print\<close>.\<close>

definition makedirs :: "string \<Rightarrow> action" where
  "makedirs path w =
     (None, if path \<in> set (dirs w) then w else w\<lparr>dirs := path # dirs w\<rparr>)"

definition print :: "string \<Rightarrow> action" where
  "print line w = (None, w\<lparr>console := console w @ [line]\<rparr>)"

text \<open>\<open>os.path.join(a, b)\<close> of \<open>posixpath\<close>, for two components.\<close>

definition os_path_join :: "string \<Rightarrow> string \<Rightarrow> string" where
  "os_path_join a b =
     (if b \<noteq> [] \<and> hd b = CHR ''/'' then b
      else if a = [] \<or> last a = CHR ''/'' then a @ b
      else a @ ''/'' @ b)"

text \<open>\<open>s.replace(old, new)\<close> for one-character \<open>old\<close> and \<open>new\<close>.\<close>

definition replace :: "char \<Rightarrow> char \<Rightarrow> string \<Rightarrow> string" where
  "replace old new s = map (\<lambda>c. if c = old then new else c) s"

text \<open>\<open>str(n)\<close> of a natural number, as an f-string formats \<open>len(df)\<close>.\<close>

fun str_nat :: "nat \<Rightarrow> string" where
  "str_nat n =
     (if n < 10 then [char_of (48 + n)]
      else str_nat (n div 10) @ [char_of (48 + n mod 10)])"

subsection \<open>The renderers\<close>

definition plot_maml_learning_curves :: "dataframe \<Rightarrow> string \<Rightarrow> string \<Rightarrow> action" where
  "plot_maml_learning_curves df_maml title_suffix output_dir =
     (if df_empty df_maml
      then print (''MAML dataframe is empty for '' @ title_suffix @ ''. Skipping plot.'')
      else run
        [subplots 3 1,
         lineplot 0 ''log_step'' ''val_loss'' df_maml ''Meta-Validation Loss'',
         set_ylabel 0 ''Loss'',
         set_title 0 (''MAML Meta-Validation Loss '' @ title_suffix),
         legend 0,
         lineplot 1 ''log_step'' ''val_accuracy'' df_maml ''Meta-Validation Accuracy'',
         set_ylabel 1 ''Accuracy'',
         set_title 1 (''MAML Meta-Validation Accuracy '' @ title_suffix),
         legend 1,
         set_ylim 1 0 1.05,
         (if has_column df_maml ''grad_alignment''
          then run
            [lineplot 2 ''log_step'' ''grad_alignment'' df_maml ''Gradient Alignment'',
             set_ylabel 2 ''Cosine Similarity'',
             set_title 2 (''MAML Gradient Alignment '' @ title_suffix),
             legend 2]
          else skip),
         set_xlabel 2 ''Training Steps / Epochs'',
         tight_layout,
         makedirs output_dir,
         savefig (os_path_join output_dir
           (''maml_learning_curves'' @ replace CHR '' '' CHR ''_'' title_suffix @ ''.png'')),
         print (''Saved MAML learning curves plot to '' @ output_dir @ ''/''),
         close])"

definition plot_sgd_performance_distribution :: "dataframe \<Rightarrow> string \<Rightarrow> string \<Rightarrow> action" where
  "plot_sgd_performance_distribution df_sgd title_suffix output_dir =
     (if df_empty df_sgd
      then print (''SGD dataframe is empty for '' @ title_suffix @ ''. Skipping plot.'')
      else run
        [subplots 1 2,
         histplot 0 df_sgd ''query_accuracy'',
         set_title 0 (''SGD Query Accuracy Distribution '' @ title_suffix),
         set_xlabel 0 ''Query Accuracy'',
         set_xlim 0 0 1.05,
         histplot 1 df_sgd ''query_loss'',
         set_title 1 (''SGD Query Loss Distribution '' @ title_suffix),
         set_xlabel 1 ''Query Loss'',
         plt_suptitle (''SGD Baseline Performance Over '' @ str_nat (len_df df_sgd) @
           '' Tasks '' @ title_suffix),
         tight_layout,
         makedirs output_dir,
         savefig (os_path_join output_dir
           (''sgd_performance_distribution'' @ replace CHR '' '' CHR ''_'' title_suffix @ ''.png'')),
         print (''Saved SGD performance distribution plot to '' @ output_dir @ ''/''),
         close])"

definition plot_gradient_alignment_maml :: "dataframe \<Rightarrow> string \<Rightarrow> string \<Rightarrow> action" where
  "plot_gradient_alignment_maml df_maml title_suffix output_dir =
     (if df_empty df_maml \<or> \<not> has_column df_maml ''grad_alignment''
      then print (''MAML dataframe for grad alignment is empty or missing column for '' @
             title_suffix @ ''. Skipping plot.'')
      else run
        [subplots 1 1,
         lineplot 0 ''log_step'' ''grad_alignment'' df_maml ''Gradient Alignment'',
         set_ylabel 0 ''Cosine Similarity'',
         set_title 0 (''MAML Gradient Alignment Over Training '' @ title_suffix),
         set_xlabel 0 ''Training Steps / Epochs'',
         legend 0,
         tight_layout,
         makedirs output_dir,
         savefig (os_path_join output_dir
           (''maml_gradient_alignment'' @ replace CHR '' '' CHR ''_'' title_suffix @ ''.png'')),
         print (''Saved MAML gradient alignment plot to '' @ output_dir @ ''/''),
         close])"

definition plot_weight_drift_comparison :: "dataframe \<Rightarrow> dataframe \<Rightarrow> string \<Rightarrow> string \<Rightarrow> action" where
  "plot_weight_drift_comparison df_maml_drift df_sgd_final_drifts title_suffix output_dir =
     run
       [subplots 1 2,
        (if \<not> df_empty df_maml_drift \<and> has_column df_maml_drift ''l2_drift_from_init''
         then run
           [lineplot 0 ''epoch'' ''l2_drift_from_init'' df_maml_drift ''MAML: Drift from Init'',
            (if has_column df_maml_drift ''l2_drift_from_previous''
             then lineplot 0 ''epoch'' ''l2_drift_from_previous'' df_maml_drift
                    ''MAML: Drift from Prev Checkpoint''
             else skip),
            set_xlabel 0 ''MAML Training Epochs'',
            set_ylabel 0 ''L2 Distance (Parameters)'',
            set_title 0 (''MAML Weight Drift '' @ title_suffix),
            legend 0]
         else run
           [ax_text 0 0.5 0.5 ''MAML drift data missing or incomplete'',
            set_title 0 (''MAML Weight Drift '' @ title_suffix)]),
        (if \<not> df_empty df_sgd_final_drifts \<and>
            has_column df_sgd_final_drifts ''final_l2_drift_from_init''
         then run
           [histplot 1 df_sgd_final_drifts ''final_l2_drift_from_init'',
            set_xlabel 1 ''L2 Distance (Final SGD Model from its Init)'',
            set_ylabel 1 ''Number of SGD Tasks'',
            set_title 1 (''Distribution of Final SGD Model Drifts '' @ title_suffix)]
         else run
           [ax_text 1 0.5 0.5 ''SGD drift data missing or incomplete'',
            set_title 1 (''Distribution of Final SGD Model Drifts '' @ title_suffix)]),
        tight_layout,
        makedirs output_dir,
        savefig (os_path_join output_dir
          (''weight_drift_comparison'' @ replace CHR '' '' CHR ''_'' title_suffix @ ''.png'')),
        print (''Saved weight drift comparison plot to '' @ output_dir @ ''/''),
        close]"

subsection \<open>The trend shape of the specification\<close>

text \<open>
  The specification describes every smooth component as a saturating approach from
  \<open>start\<close> to \<open>target\<close>:
  \<open>target - (target - start) * exp (- x / (x_max * decay_fraction))\<close>.
  This definition follows the specification's words; the generators above follow the
  script.
\<close>

definition saturating_trend :: "real \<Rightarrow> real \<Rightarrow> real \<Rightarrow> real \<Rightarrow> real \<Rightarrow> real" where
  "saturating_trend target start decay_fraction x_max x =
     target - (target - start) * exp (- x / (x_max * decay_fraction))"

subsection \<open>Concrete generator states for the examples\<close>

text \<open>Every normal variate is \<open>z\<close> and every uniform variate is \<open>u\<close>.\<close>

definition const_rng :: "real \<Rightarrow> real \<Rightarrow> rng" where
  "const_rng z u = \<lparr>std_normal = (\<lambda>_. z), uniform01 = (\<lambda>_. u), used = 0\<rparr>"

text \<open>
  No normal noise; the uniform variates are 1/2 except the one at position 7, which is 0.
\<close>

definition dip_rng :: rng where
  "dip_rng = \<lparr>std_normal = (\<lambda>_. 0), uniform01 = (\<lambda>i. if i = 7 then 0 else 1 / 2), used = 0\<rparr>"

declare str_nat.simps [simp del]

section \<open>Properties\<close>

subsection \<open>The generators in closed form\<close>

lemma arange_from_zero: "0 \<le> n \<Longrightarrow> arange 0 n 1 = Inr (map int [0..<nat n])"
  by (simp add: arange_def arange_len_def)

lemma neg_ceil_div:
  fixes li e :: int
  assumes "1 \<le> li"
  shows "(li - (e + 1)) div li = - (e div li)"
proof (rule int_div_pos_eq)
  show "li - (e + 1) = li * - (e div li) + (li - 1 - e mod li)"
    using mult_div_mod_eq [of li e] by (simp add: algebra_simps)
  show "0 \<le> li - 1 - e mod li"
    using assms pos_mod_bound [of li e] by simp
  show "li - 1 - e mod li < li"
    using assms pos_mod_sign [of li e] by linarith
qed

lemma arange_len_interval: "1 \<le> li \<Longrightarrow> arange_len li (e + 1) li = nat (e div li)"
  by (simp add: arange_len_def neg_ceil_div)

lemma arange_steps:
  "1 \<le> li \<Longrightarrow> arange li (e + 1) li = Inr (map (\<lambda>i. li * (int i + 1)) [0..<nat (e div li)])"
  using arange_len_interval [of li e] by (simp add: arange_def algebra_simps)

lemma arange_points:
  "0 \<le> n \<Longrightarrow> arange 1 (n + 1) 1 = Inr (map (\<lambda>i. int i + 1) [0..<nat n])"
  by (simp add: arange_def arange_len_def algebra_simps)


lemma bind_err_Inr [simp]: "bind_err (Inr x) f = f x"
  by (simp add: bind_err_def)

lemma bind_err_Inl [simp]: "bind_err (Inl e) f = Inl e"
  by (simp add: bind_err_def)

lemma random_normal_ok:
  "0 \<le> scale \<Longrightarrow> 0 \<le> n \<Longrightarrow>
   random_normal loc scale n g =
     Inr (map (\<lambda>i. loc + scale * std_normal g (used g + i)) [0..<nat n], g\<lparr>used := used g + nat n\<rparr>)"
  by (simp add: random_normal_def)

lemma random_rand_ok:
  "0 \<le> n \<Longrightarrow>
   random_rand n g = Inr (map (\<lambda>i. uniform01 g (used g + i)) [0..<nat n], g\<lparr>used := used g + nat n\<rparr>)"
  by (simp add: random_rand_def)

lemma map_zip_same:
  "map F (zip (map a xs) (map b xs)) = map (\<lambda>x. F (a x, b x)) xs"
  by (induction xs) simp_all

lemma sgd_trajectory_eq:
  assumes "0 \<le> N"
  shows "generate_dummy_sgd_trajectory N g =
    Inr (\<lparr>index_len = nat N, columns =
      [(''task_idx'', IntCol (map int [0..<nat N])),
       (''query_loss'', FloatCol (map (\<lambda>i.
          0.6 - 0.2 * (1 - exp (- real i / (real_of_int N * 0.5)))
            + 0.03 * std_normal g (used g + i)) [0..<nat N])),
       (''query_accuracy'', FloatCol (map (\<lambda>i. min (max
          (0.55 + 0.3 * (1 - exp (- real i / (real_of_int N * 0.6)))
            + 0.03 * std_normal g (used g + nat N + i)) 0) 1) [0..<nat N])),
       (''final_support_loss'', FloatCol (map (\<lambda>i.
          uniform01 g (used g + nat N + nat N + i) * 0.1) [0..<nat N])),
       (''num_sgd_steps'', IntCol (replicate (nat N) 100)),
       (''lr'', FloatCol (replicate (nat N) 0.001))]\<rparr>,
      g\<lparr>used := used g + nat N + nat N + nat N\<rparr>)"
  using assms
  by (simp add: generate_dummy_sgd_trajectory_def arange_from_zero random_normal_ok
      random_rand_ok DataFrame_def clip_column_def get_column_def set_column_def
      map_zip_same o_def)


lemma maml_trajectory_eq:
  assumes "1 \<le> li"
  shows "generate_dummy_maml_trajectory e li g =
    Inr (\<lparr>index_len = nat (e div li), columns =
      [(''log_step'', IntCol (map (\<lambda>i. li * (int i + 1)) [0..<nat (e div li)])),
       (''val_loss'', FloatCol (map (\<lambda>i.
          0.7 - 0.3 * (1 - exp (- real_of_int (li * (int i + 1)) / (real_of_int e * 0.3)))
            + 0.02 * std_normal g (used g + i)) [0..<nat (e div li)])),
       (''val_accuracy'', FloatCol (map (\<lambda>i. min (max
          (0.5 + 0.4 * (1 - exp (- real_of_int (li * (int i + 1)) / (real_of_int e * 0.4)))
            + 0.02 * std_normal g (used g + nat (e div li) + i)) 0) 1) [0..<nat (e div li)])),
       (''grad_alignment'', FloatCol (map (\<lambda>i.
          0.1 + 0.6 * (1 - exp (- real_of_int (li * (int i + 1)) / (real_of_int e * 0.5)))
            + 0.05 * std_normal g (used g + nat (e div li) + nat (e div li) + i))
          [0..<nat (e div li)]))]\<rparr>,
      g\<lparr>used := used g + nat (e div li) + nat (e div li) + nat (e div li)\<rparr>)"
  using assms
  by (simp add: generate_dummy_maml_trajectory_def arange_steps random_normal_ok
      DataFrame_def clip_column_def get_column_def set_column_def map_zip_same o_def)

lemma last_item_map_upt:
  "0 < n \<Longrightarrow> last_item (map f [0..<n]) = Inr (f (n - 1))"
proof -
  assume "0 < n"
  then have ne: "map f [0..<n] \<noteq> []" by simp
  have "last (map f [0..<n]) = f (n - 1)"
    using \<open>0 < n\<close> by (simp add: last_map last_upt)
  with ne show ?thesis
    by (cases "map f [0..<n]") (simp_all add: last_item_def)
qed

lemma drift_maml_eq:
  assumes "1 \<le> n"
  shows "generate_dummy_drift_data n ''maml'' m sd g =
    Inr (\<lparr>index_len = nat n, columns =
      [(''epoch'', IntCol (map (\<lambda>i. (int i + 1) * 100) [0..<nat n])),
       (''l2_drift_from_init'', FloatCol (map2 (+)
          (map (\<lambda>e. m * (1 - exp (- real_of_int e / (real_of_int (n * 100) * 0.4))))
             (map (\<lambda>i. (int i + 1) * 100) [0..<nat n]))
          (map (\<lambda>i. 0 + 0.1 * std_normal g (used g + i)) [0..<nat n]))),
       (''l2_drift_from_previous'', FloatCol (map2
          (\<lambda>z e. \<bar>z * (m / real_of_int (n * 100)) *
             (real_of_int (n * 100) - real_of_int e / 2) / (real_of_int (n * 100) / 2)\<bar>)
          (map (\<lambda>i. 0.1 + 0.05 * std_normal g (used g + nat n + i)) [0..<nat n])
          (map (\<lambda>i. (int i + 1) * 100) [0..<nat n])))]\<rparr>,
      g\<lparr>used := used g + nat n + nat n\<rparr>)"
proof -
  define E where "E = map (\<lambda>i. (int i + 1) * 100) [0..<nat n]"
  define N1 where "N1 = map (\<lambda>i. 0 + 0.1 * std_normal g (used g + i)) [0..<nat n]"
  define N2 where "N2 = map (\<lambda>i. 0.1 + 0.05 * std_normal g (used g + nat n + i)) [0..<nat n]"
  define g1 where "g1 = g\<lparr>used := used g + nat n\<rparr>"
  define g2 where "g2 = g\<lparr>used := used g + nat n + nat n\<rparr>"
  define F where "F = (\<lambda>e. m * (1 - exp (- real_of_int e / (real_of_int (n * 100) * 0.4))))"
  define H where "H = (\<lambda>z e. \<bar>z * (m / real_of_int (n * 100)) *
             (real_of_int (n * 100) - real_of_int e / 2) / (real_of_int (n * 100) / 2)\<bar>)"
  have ar: "arange 1 (n + 1) 1 = Inr (map (\<lambda>i. int i + 1) [0..<nat n])"
    using assms by (simp add: arange_points)
  have E': "map (\<lambda>x. x * 100) (map (\<lambda>i. int i + 1) [0..<nat n]) = E"
    by (simp add: E_def o_def)
  have last: "last_item E = Inr (n * 100)"
    using assms last_item_map_upt [of "nat n" "\<lambda>i. (int i + 1) * 100"]
    by (simp add: E_def)
  have r1: "random_normal 0 0.1 n g = Inr (N1, g1)"
    using assms by (simp add: random_normal_def N1_def g1_def)
  have r2: "random_normal 0.1 0.05 n g1 = Inr (N2, g2)"
    using assms by (simp add: random_normal_def N2_def g1_def g2_def)
  have len: "length E = nat n" "length (map2 (+) (map F E) N1) = nat n"
    "length (map2 H N2 E) = nat n"
    by (simp_all add: E_def N1_def N2_def)
  have df: "DataFrame [(''epoch'', IntCol E), (''l2_drift_from_init'', FloatCol (map2 (+) (map F E) N1)),
      (''l2_drift_from_previous'', FloatCol (map2 H N2 E))] =
    Inr \<lparr>index_len = nat n, columns = [(''epoch'', IntCol E),
      (''l2_drift_from_init'', FloatCol (map2 (+) (map F E) N1)),
      (''l2_drift_from_previous'', FloatCol (map2 H N2 E))]\<rparr>"
    unfolding DataFrame_def using len by simp
  have "generate_dummy_drift_data n ''maml'' m sd g =
    Inr (\<lparr>index_len = nat n, columns = [(''epoch'', IntCol E),
      (''l2_drift_from_init'', FloatCol (map2 (+) (map F E) N1)),
      (''l2_drift_from_previous'', FloatCol (map2 H N2 E))]\<rparr>, g2)"
    unfolding generate_dummy_drift_data_def F_def [symmetric]
    apply (simp only: simp_thms if_True ar bind_err_Inr E' Let_def r1 r2 last case_prod_conv)
    apply (simp only: H_def [symmetric] df bind_err_Inr)
    done
  then show ?thesis
    unfolding E_def N1_def N2_def g2_def F_def H_def .
qed

lemma drift_sgd_eq:
  assumes "0 \<le> n" and "0 \<le> sd"
  shows "generate_dummy_drift_data n ''sgd'' m sd g =
    Inr (\<lparr>index_len = nat n, columns =
      [(''final_l2_drift_from_init'', FloatCol (map (\<lambda>i.
          \<bar>m * 0.8 + sd * std_normal g (used g + i)\<bar>) [0..<nat n]))]\<rparr>,
      g\<lparr>used := used g + nat n\<rparr>)"
  using assms
  by (simp add: generate_dummy_drift_data_def random_normal_ok DataFrame_def o_def)

lemma drift_other_eq:
  "type \<noteq> ''maml'' \<Longrightarrow> type \<noteq> ''sgd'' \<Longrightarrow>
   generate_dummy_drift_data n type m sd g = Inr (empty_DataFrame, g)"
  by (simp add: generate_dummy_drift_data_def)

subsection \<open>Shape of the SGD trajectory\<close>

text \<open>
  Claim C1. For every \<open>num_tasks = N \<ge> 1\<close> the SGD generator returns a table whose
  columns are exactly task_idx, query_loss, query_accuracy, final_support_loss,
  num_sgd_steps and lr, with \<open>N\<close> rows in the index and in every column; task_idx is
  the sequence \<open>0..N-1\<close> without repetition, num_sgd_steps is 100 in every row and lr is
  0.001 in every row.
\<close>

theorem sgd_trajectory_table:
  assumes "1 \<le> N"
  shows "\<exists>df g'. generate_dummy_sgd_trajectory N g = Inr (df, g') \<and>
    column_names df = [''task_idx'', ''query_loss'', ''query_accuracy'',
      ''final_support_loss'', ''num_sgd_steps'', ''lr''] \<and>
    len_df df = nat N \<and>
    list_all (\<lambda>c. col_len (snd c) = nat N) (columns df) \<and>
    get_column df ''task_idx'' = Inr (IntCol (map int [0..<nat N])) \<and>
    distinct (map int [0..<nat N]) \<and>
    get_column df ''num_sgd_steps'' = Inr (IntCol (replicate (nat N) 100)) \<and>
    get_column df ''lr'' = Inr (FloatCol (replicate (nat N) 0.001))"
  using assms
  by (simp add: sgd_trajectory_eq column_names_def len_df_def get_column_def
      distinct_map inj_on_def)

text \<open>The scenario of the specification: \<open>num_tasks = 50\<close>.\<close>

theorem sgd_trajectory_table_witness:
  "(1::int) \<le> 50 \<and>
   (\<exists>df g'. generate_dummy_sgd_trajectory 50 (const_rng 0 0) = Inr (df, g') \<and>
    column_names df = [''task_idx'', ''query_loss'', ''query_accuracy'',
      ''final_support_loss'', ''num_sgd_steps'', ''lr''] \<and>
    len_df df = 50 \<and>
    get_column df ''task_idx'' = Inr (IntCol (map int [0..<50])) \<and>
    get_column df ''num_sgd_steps'' = Inr (IntCol (replicate 50 100)) \<and>
    get_column df ''lr'' = Inr (FloatCol (replicate 50 0.001)))"
  using sgd_trajectory_table [of 50 "const_rng 0 0"]
  by auto

subsection \<open>Clipping of the accuracy columns\<close>

lemma bind_err_eq_Inr: "bind_err m f = Inr y \<longleftrightarrow> (\<exists>x. m = Inr x \<and> f x = Inr y)"
  by (cases m) simp_all

lemma maml_accuracy_clipped:
  assumes "generate_dummy_maml_trajectory e li g = Inr (df, g')"
  shows "\<exists>xs. get_column df ''val_accuracy'' = Inr (FloatCol xs) \<and>
           list_all (\<lambda>v. 0 \<le> v \<and> v \<le> 1) xs"
  using assms
  unfolding generate_dummy_maml_trajectory_def
  by (auto simp: bind_err_eq_Inr DataFrame_def clip_column_def get_column_def set_column_def
      list_all_iff split: if_splits)

lemma sgd_accuracy_clipped:
  assumes "generate_dummy_sgd_trajectory N g = Inr (df, g')"
  shows "\<exists>xs. get_column df ''query_accuracy'' = Inr (FloatCol xs) \<and>
           list_all (\<lambda>v. 0 \<le> v \<and> v \<le> 1) xs"
  using assms
  unfolding generate_dummy_sgd_trajectory_def
  by (auto simp: bind_err_eq_Inr DataFrame_def clip_column_def get_column_def set_column_def
      list_all_iff split: if_splits)

lemma exp_nonpos_le_one: "(y::real) \<le> 0 \<Longrightarrow> exp y \<le> 1"
  by simp

lemma maml_columns_at:
  "\<exists>df g'. generate_dummy_maml_trajectory 100 10 (const_rng z u) = Inr (df, g') \<and>
     get_column df ''val_loss'' = Inr (FloatCol (map (\<lambda>i.
        0.7 - 0.3 * (1 - exp (- real_of_int (10 * (int i + 1)) / (real_of_int 100 * 0.3)))
          + 0.02 * z) [0..<10])) \<and>
     get_column df ''grad_alignment'' = Inr (FloatCol (map (\<lambda>i.
        0.1 + 0.6 * (1 - exp (- real_of_int (10 * (int i + 1)) / (real_of_int 100 * 0.5)))
          + 0.05 * z) [0..<10]))"
  by (simp add: maml_trajectory_eq [of 10 100] const_rng_def get_column_def)

lemma sgd_columns_at:
  "\<exists>df g'. generate_dummy_sgd_trajectory 50 (const_rng z u) = Inr (df, g') \<and>
     get_column df ''query_loss'' = Inr (FloatCol (map (\<lambda>i.
        0.6 - 0.2 * (1 - exp (- real i / (real_of_int 50 * 0.5))) + 0.03 * z) [0..<50])) \<and>
     get_column df ''final_support_loss'' = Inr (FloatCol (map (\<lambda>i. u * 0.1) [0..<50]))"
  by (simp add: sgd_trajectory_eq [of 50] const_rng_def get_column_def)

lemma maml_unclipped_above:
  "\<exists>g df g' vl ga. generate_dummy_maml_trajectory 100 10 g = Inr (df, g') \<and>
     get_column df ''val_loss'' = Inr (FloatCol vl) \<and>
     get_column df ''grad_alignment'' = Inr (FloatCol ga) \<and>
     length vl = 10 \<and> length ga = 10 \<and>
     list_all (\<lambda>v. B < v) vl \<and> list_all (\<lambda>v. B < v) ga"
proof -
  define z where "z = 50 * (\<bar>B\<bar> + 1)"
  define L where "L = (\<lambda>i::nat. 0.7 - 0.3 * (1 - exp (- real_of_int (10 * (int i + 1)) / (real_of_int 100 * 0.3))) + 0.02 * z)"
  define A where "A = (\<lambda>i::nat. 0.1 + 0.6 * (1 - exp (- real_of_int (10 * (int i + 1)) / (real_of_int 100 * 0.5))) + 0.05 * z)"
  obtain df g' where r: "generate_dummy_maml_trajectory 100 10 (const_rng z 0) = Inr (df, g')"
    and vl: "get_column df ''val_loss'' = Inr (FloatCol (map L [0..<10]))"
    and ga: "get_column df ''grad_alignment'' = Inr (FloatCol (map A [0..<10]))"
    unfolding L_def A_def using maml_columns_at [of z 0] by blast
  have L: "B < L i" for i
  proof -
    have "0 < exp (- real_of_int (10 * (int i + 1)) / (real_of_int 100 * 0.3))" by simp
    then have "0.4 + 0.02 * z < L i" unfolding L_def by (simp add: algebra_simps)
    moreover have "B \<le> 0.4 + 0.02 * z" unfolding z_def by (simp add: abs_if field_simps)
    ultimately show ?thesis by simp
  qed
  have A: "B < A i" for i
  proof -
    have "exp (- real_of_int (10 * (int i + 1)) / (real_of_int 100 * 0.5)) \<le> 1"
      by (rule exp_nonpos_le_one) simp
    then have "0.1 + 0.05 * z \<le> A i" unfolding A_def by (simp add: algebra_simps)
    moreover have "B < 0.1 + 0.05 * z" unfolding z_def by (simp add: abs_if field_simps)
    ultimately show ?thesis by simp
  qed
  have "list_all (\<lambda>v. B < v) (map L [0..<10])" "list_all (\<lambda>v. B < v) (map A [0..<10])"
    using L A by (simp_all add: list_all_iff)
  with r vl ga show ?thesis
    by (intro exI [of _ "const_rng z 0"] exI [of _ df] exI [of _ g']
        exI [of _ "map L [0..<10]"] exI [of _ "map A [0..<10]"]) simp
qed


lemma maml_unclipped_below:
  "\<exists>g df g' vl ga. generate_dummy_maml_trajectory 100 10 g = Inr (df, g') \<and>
     get_column df ''val_loss'' = Inr (FloatCol vl) \<and>
     get_column df ''grad_alignment'' = Inr (FloatCol ga) \<and>
     length vl = 10 \<and> length ga = 10 \<and>
     list_all (\<lambda>v. v < B) vl \<and> list_all (\<lambda>v. v < B) ga"
proof -
  define z where "z = - 50 * (\<bar>B\<bar> + 1)"
  define L where "L = (\<lambda>i::nat. 0.7 - 0.3 * (1 - exp (- real_of_int (10 * (int i + 1)) / (real_of_int 100 * 0.3))) + 0.02 * z)"
  define A where "A = (\<lambda>i::nat. 0.1 + 0.6 * (1 - exp (- real_of_int (10 * (int i + 1)) / (real_of_int 100 * 0.5))) + 0.05 * z)"
  obtain df g' where r: "generate_dummy_maml_trajectory 100 10 (const_rng z 0) = Inr (df, g')"
    and vl: "get_column df ''val_loss'' = Inr (FloatCol (map L [0..<10]))"
    and ga: "get_column df ''grad_alignment'' = Inr (FloatCol (map A [0..<10]))"
    unfolding L_def A_def using maml_columns_at [of z 0] by blast
  have L: "L i < B" for i
  proof -
    have "exp (- real_of_int (10 * (int i + 1)) / (real_of_int 100 * 0.3)) \<le> 1"
      by (rule exp_nonpos_le_one) simp
    then have "L i \<le> 0.7 + 0.02 * z" unfolding L_def by (simp add: algebra_simps)
    moreover have "0.7 + 0.02 * z < B" unfolding z_def by (simp add: abs_if field_simps)
    ultimately show ?thesis by simp
  qed
  have A: "A i < B" for i
  proof -
    have "0 < exp (- real_of_int (10 * (int i + 1)) / (real_of_int 100 * 0.5))" by simp
    then have "A i < 0.7 + 0.05 * z" unfolding A_def by (simp add: algebra_simps)
    moreover have "0.7 + 0.05 * z \<le> B" unfolding z_def by (simp add: abs_if field_simps)
    ultimately show ?thesis by simp
  qed
  have "list_all (\<lambda>v. v < B) (map L [0..<10])" "list_all (\<lambda>v. v < B) (map A [0..<10])"
    using L A by (simp_all add: list_all_iff)
  with r vl ga show ?thesis
    by (intro exI [of _ "const_rng z 0"] exI [of _ df] exI [of _ g']
        exI [of _ "map L [0..<10]"] exI [of _ "map A [0..<10]"]) simp
qed

lemma sgd_unclipped_above:
  "\<exists>g df g' ql. generate_dummy_sgd_trajectory 50 g = Inr (df, g') \<and>
     get_column df ''query_loss'' = Inr (FloatCol ql) \<and> length ql = 50 \<and>
     list_all (\<lambda>v. B < v) ql"
proof -
  define z where "z = 100 * (\<bar>B\<bar> + 1)"
  define Q where "Q = (\<lambda>i::nat. 0.6 - 0.2 * (1 - exp (- real i / (real_of_int 50 * 0.5))) + 0.03 * z)"
  obtain df g' where r: "generate_dummy_sgd_trajectory 50 (const_rng z 0) = Inr (df, g')"
    and ql: "get_column df ''query_loss'' = Inr (FloatCol (map Q [0..<50]))"
    unfolding Q_def using sgd_columns_at [of z 0] by blast
  have Q: "B < Q i" for i
  proof -
    have "0 < exp (- real i / (real_of_int 50 * 0.5))" by simp
    then have "0.4 + 0.03 * z < Q i" unfolding Q_def by (simp add: algebra_simps)
    moreover have "B \<le> 0.4 + 0.03 * z" unfolding z_def by (simp add: abs_if field_simps)
    ultimately show ?thesis by simp
  qed
  have "list_all (\<lambda>v. B < v) (map Q [0..<50])"
    using Q by (simp add: list_all_iff)
  with r ql show ?thesis
    by (intro exI [of _ "const_rng z 0"] exI [of _ df] exI [of _ g']
        exI [of _ "map Q [0..<50]"]) simp
qed

lemma sgd_unclipped_below:
  "\<exists>g df g' ql. generate_dummy_sgd_trajectory 50 g = Inr (df, g') \<and>
     get_column df ''query_loss'' = Inr (FloatCol ql) \<and> length ql = 50 \<and>
     list_all (\<lambda>v. v < B) ql"
proof -
  define z where "z = - 100 * (\<bar>B\<bar> + 1)"
  define Q where "Q = (\<lambda>i::nat. 0.6 - 0.2 * (1 - exp (- real i / (real_of_int 50 * 0.5))) + 0.03 * z)"
  obtain df g' where r: "generate_dummy_sgd_trajectory 50 (const_rng z 0) = Inr (df, g')"
    and ql: "get_column df ''query_loss'' = Inr (FloatCol (map Q [0..<50]))"
    unfolding Q_def using sgd_columns_at [of z 0] by blast
  have Q: "Q i < B" for i
  proof -
    have "exp (- real i / (real_of_int 50 * 0.5)) \<le> 1"
      by (rule exp_nonpos_le_one) simp
    then have "Q i \<le> 0.6 + 0.03 * z" unfolding Q_def by (simp add: algebra_simps)
    moreover have "0.6 + 0.03 * z < B" unfolding z_def by (simp add: abs_if field_simps)
    ultimately show ?thesis by simp
  qed
  have "list_all (\<lambda>v. v < B) (map Q [0..<50])"
    using Q by (simp add: list_all_iff)
  with r ql show ?thesis
    by (intro exI [of _ "const_rng z 0"] exI [of _ df] exI [of _ g']
        exI [of _ "map Q [0..<50]"]) simp
qed

text \<open>
  Claim C2. Whatever the arguments and the noise, every value of val_accuracy in a table
  returned by the MAML generator and every value of query_accuracy in a table returned by
  the SGD generator lies in \<open>[0, 1]\<close>: the clip comes after the noise. No other
  noisy column is clipped: for every bound \<open>B\<close> there are noise realisations under
  which all ten values of val_loss and of grad_alignment lie above \<open>B\<close>, and others
  under which they lie below \<open>B\<close>; the same holds for the fifty values of query_loss.
\<close>

theorem accuracy_columns_clipped:
  "(generate_dummy_maml_trajectory e li g = Inr (df, g') \<longrightarrow>
      (\<exists>xs. get_column df ''val_accuracy'' = Inr (FloatCol xs) \<and>
         list_all (\<lambda>v. 0 \<le> v \<and> v \<le> 1) xs)) \<and>
   (generate_dummy_sgd_trajectory N h = Inr (df2, h') \<longrightarrow>
      (\<exists>xs. get_column df2 ''query_accuracy'' = Inr (FloatCol xs) \<and>
         list_all (\<lambda>v. 0 \<le> v \<and> v \<le> 1) xs)) \<and>
   (\<exists>g df g' vl ga. generate_dummy_maml_trajectory 100 10 g = Inr (df, g') \<and>
      get_column df ''val_loss'' = Inr (FloatCol vl) \<and>
      get_column df ''grad_alignment'' = Inr (FloatCol ga) \<and>
      length vl = 10 \<and> length ga = 10 \<and>
      list_all (\<lambda>v. B < v) vl \<and> list_all (\<lambda>v. B < v) ga) \<and>
   (\<exists>g df g' vl ga. generate_dummy_maml_trajectory 100 10 g = Inr (df, g') \<and>
      get_column df ''val_loss'' = Inr (FloatCol vl) \<and>
      get_column df ''grad_alignment'' = Inr (FloatCol ga) \<and>
      length vl = 10 \<and> length ga = 10 \<and>
      list_all (\<lambda>v. v < B) vl \<and> list_all (\<lambda>v. v < B) ga) \<and>
   (\<exists>g df g' ql. generate_dummy_sgd_trajectory 50 g = Inr (df, g') \<and>
      get_column df ''query_loss'' = Inr (FloatCol ql) \<and> length ql = 50 \<and>
      list_all (\<lambda>v. B < v) ql) \<and>
   (\<exists>g df g' ql. generate_dummy_sgd_trajectory 50 g = Inr (df, g') \<and>
      get_column df ''query_loss'' = Inr (FloatCol ql) \<and> length ql = 50 \<and>
      list_all (\<lambda>v. v < B) ql)"
  using maml_accuracy_clipped [of e li g df g'] sgd_accuracy_clipped [of N h df2 h']
    maml_unclipped_above [of B] maml_unclipped_below [of B]
    sgd_unclipped_above [of B] sgd_unclipped_below [of B]
  by blast

text \<open>
  Two calls that return: normal variates of 100 push every val_accuracy to the upper
  bound, variates of -100 push every query_accuracy to the lower one.
\<close>

theorem accuracy_columns_clipped_witness:
  "\<exists>df g' df2 h'.
     generate_dummy_maml_trajectory 100 10 (const_rng 100 0) = Inr (df, g') \<and>
     (\<exists>xs. get_column df ''val_accuracy'' = Inr (FloatCol xs) \<and>
        list_all (\<lambda>v. 0 \<le> v \<and> v \<le> 1) xs) \<and>
     generate_dummy_sgd_trajectory 50 (const_rng (- 100) 0) = Inr (df2, h') \<and>
     (\<exists>xs. get_column df2 ''query_accuracy'' = Inr (FloatCol xs) \<and>
        list_all (\<lambda>v. 0 \<le> v \<and> v \<le> 1) xs)"
proof -
  obtain df g' where m: "generate_dummy_maml_trajectory 100 10 (const_rng 100 0) = Inr (df, g')"
    using maml_columns_at [of 100 0] by blast
  obtain df2 h' where s: "generate_dummy_sgd_trajectory 50 (const_rng (- 100) 0) = Inr (df2, h')"
    using sgd_columns_at [of "- 100" 0] by blast
  from m s accuracy_columns_clipped [of 100 10 "const_rng 100 0" df g' 50 "const_rng (- 100) 0" df2 h' 1]
  show ?thesis by blast
qed

subsection \<open>Non-negative drift columns\<close>

lemma list_all_map2:
  "(\<And>x y. x \<in> set xs \<Longrightarrow> y \<in> set ys \<Longrightarrow> P (f x y)) \<Longrightarrow> list_all P (map2 f xs ys)"
  by (auto simp: list_all_iff dest: set_zip_leftD set_zip_rightD)

lemma drift_from_previous_nonneg:
  assumes "generate_dummy_drift_data n ''maml'' m sd g = Inr (df, g')"
  shows "\<exists>xs. get_column df ''l2_drift_from_previous'' = Inr (FloatCol xs) \<and>
           list_all (\<lambda>v. 0 \<le> v) xs"
  using assms
  unfolding generate_dummy_drift_data_def
  by (auto simp: bind_err_eq_Inr DataFrame_def get_column_def Let_def
      intro!: list_all_map2 split: if_splits)

lemma final_drift_nonneg:
  assumes "generate_dummy_drift_data n ''sgd'' m sd g = Inr (df, g')"
  shows "column_names df = [''final_l2_drift_from_init''] \<and> len_df df = nat n \<and>
         (\<exists>xs. get_column df ''final_l2_drift_from_init'' = Inr (FloatCol xs) \<and>
            length xs = nat n \<and> list_all (\<lambda>v. 0 \<le> v) xs)"
  using assms
  unfolding generate_dummy_drift_data_def
  by (auto simp: bind_err_eq_Inr DataFrame_def get_column_def column_names_def len_df_def
      random_normal_def list_all_iff split: if_splits)

lemma drift_from_init_negative:
  "\<exists>df g' xs. generate_dummy_drift_data 100 ''maml'' 5 1 (const_rng (- 1000) 0) = Inr (df, g') \<and>
     get_column df ''l2_drift_from_init'' = Inr (FloatCol xs) \<and> length xs = 100 \<and>
     list_all (\<lambda>v. v < 0) xs"
proof -
  have e: "- 19 < exp y" for y :: real
    using less_trans [of "- 19" 0 "exp y"] by simp
  show ?thesis
    apply (simp add: drift_maml_eq [of 100] const_rng_def get_column_def)
    apply (rule list_all_map2)
    apply (auto simp: e)
    done
qed


lemma drift_sgd_scenario:
  "\<exists>df g'. generate_dummy_drift_data 10 ''sgd'' 8 2 k = Inr (df, g') \<and>
     column_names df = [''final_l2_drift_from_init''] \<and> len_df df = 10 \<and>
     (\<exists>xs. get_column df ''final_l2_drift_from_init'' = Inr (FloatCol xs) \<and>
        length xs = 10 \<and> list_all (\<lambda>v. 0 \<le> v) xs)"
proof -
  obtain df g' where r: "generate_dummy_drift_data 10 ''sgd'' 8 2 k = Inr (df, g')"
    by (simp add: drift_sgd_eq [of 10 2 8 k])
  with final_drift_nonneg [OF r] show ?thesis by simp
qed

text \<open>
  Claim C3. Whatever the arguments and the noise, every value of l2_drift_from_previous
  in a table returned for type maml and every value of final_l2_drift_from_init in a
  table returned for type sgd is non-negative, since both are absolute values. The call
  with \<open>num_points = 10\<close>, type sgd, \<open>final_drift_mean = 8\<close> and
  \<open>final_drift_std = 2\<close> returns, for every generator state, a table with the single
  column final_l2_drift_from_init and ten non-negative rows. The column
  l2_drift_from_init of the maml table is not forced non-negative: under suitable noise
  all its values are negative.
\<close>

theorem drift_columns_nonnegative:
  "(generate_dummy_drift_data n ''maml'' m sd g = Inr (df, g') \<longrightarrow>
      (\<exists>xs. get_column df ''l2_drift_from_previous'' = Inr (FloatCol xs) \<and>
         list_all (\<lambda>v. 0 \<le> v) xs)) \<and>
   (generate_dummy_drift_data n2 ''sgd'' m2 sd2 h = Inr (df2, h') \<longrightarrow>
      column_names df2 = [''final_l2_drift_from_init''] \<and> len_df df2 = nat n2 \<and>
      (\<exists>xs. get_column df2 ''final_l2_drift_from_init'' = Inr (FloatCol xs) \<and>
         length xs = nat n2 \<and> list_all (\<lambda>v. 0 \<le> v) xs)) \<and>
   (\<exists>df g'. generate_dummy_drift_data 10 ''sgd'' 8 2 k = Inr (df, g') \<and>
      column_names df = [''final_l2_drift_from_init''] \<and> len_df df = 10 \<and>
      (\<exists>xs. get_column df ''final_l2_drift_from_init'' = Inr (FloatCol xs) \<and>
         length xs = 10 \<and> list_all (\<lambda>v. 0 \<le> v) xs)) \<and>
   (\<exists>g df g' xs. generate_dummy_drift_data 100 ''maml'' 5 1 g = Inr (df, g') \<and>
      get_column df ''l2_drift_from_init'' = Inr (FloatCol xs) \<and> length xs = 100 \<and>
      list_all (\<lambda>v. v < 0) xs)"
  using drift_from_previous_nonneg [of n m sd g df g'] final_drift_nonneg [of n2 m2 sd2 h df2 h']
    drift_sgd_scenario [of k] drift_from_init_negative
  by blast

text \<open>Both kinds of call at a generator state whose normal variates are all -1000.\<close>

theorem drift_columns_nonnegative_witness:
  "\<exists>df g' df2 h'.
     generate_dummy_drift_data 100 ''maml'' 5 1 (const_rng (- 1000) 0) = Inr (df, g') \<and>
     (\<exists>xs. get_column df ''l2_drift_from_previous'' = Inr (FloatCol xs) \<and>
        list_all (\<lambda>v. 0 \<le> v) xs) \<and>
     generate_dummy_drift_data 10 ''sgd'' 8 2 (const_rng (- 1000) 0) = Inr (df2, h') \<and>
     column_names df2 = [''final_l2_drift_from_init''] \<and> len_df df2 = 10 \<and>
     (\<exists>xs. get_column df2 ''final_l2_drift_from_init'' = Inr (FloatCol xs) \<and>
        length xs = 10 \<and> list_all (\<lambda>v. 0 \<le> v) xs)"
proof -
  obtain df g' where
    m: "generate_dummy_drift_data 100 ''maml'' 5 1 (const_rng (- 1000) 0) = Inr (df, g')"
    using drift_from_init_negative by blast
  obtain df2 h' where
    s: "generate_dummy_drift_data 10 ''sgd'' 8 2 (const_rng (- 1000) 0) = Inr (df2, h')"
    using drift_sgd_scenario [of "const_rng (- 1000) 0"] by blast
  from m s drift_columns_nonnegative
    [of 100 5 1 "const_rng (- 1000) 0" df g' 10 8 2 "const_rng (- 1000) 0" df2 h' "const_rng 0 0"]
  show ?thesis by auto
qed

subsection \<open>Logging steps and epochs\<close>

lemma arithmetic_sequence:
  fixes d :: int and k :: nat
  assumes "1 \<le> d"
  defines "xs \<equiv> map (\<lambda>i. d * (int i + 1)) [0..<k]"
  shows "length xs = k"
    and "\<forall>i<length xs. xs ! i = d * (int i + 1)"
    and "sorted_wrt (<) xs"
    and "\<forall>i. Suc i < length xs \<longrightarrow> xs ! Suc i - xs ! i = d"
    and "xs \<noteq> [] \<longrightarrow> hd xs = d"
proof -
  show "length xs = k" by (simp add: xs_def)
  show "\<forall>i<length xs. xs ! i = d * (int i + 1)" by (simp add: xs_def)
  show "sorted_wrt (<) xs"
    using assms(1) by (simp add: xs_def sorted_wrt_iff_nth_less)
  show "\<forall>i. Suc i < length xs \<longrightarrow> xs ! Suc i - xs ! i = d"
    by (simp add: xs_def algebra_simps)
  show "xs \<noteq> [] \<longrightarrow> hd xs = d"
    by (cases k) (simp_all add: xs_def upt_rec del: upt_Suc)
qed

lemma maml_log_step:
  assumes "1 \<le> li"
  shows "\<exists>df g'. generate_dummy_maml_trajectory e li g = Inr (df, g') \<and>
    get_column df ''log_step'' = Inr (IntCol (map (\<lambda>i. li * (int i + 1)) [0..<nat (e div li)]))"
  by (simp add: maml_trajectory_eq [OF assms] get_column_def)

lemma drift_epoch:
  assumes "1 \<le> n"
  shows "\<exists>df g'. generate_dummy_drift_data n ''maml'' m sd h = Inr (df, g') \<and>
    get_column df ''epoch'' = Inr (IntCol (map (\<lambda>i. 100 * (int i + 1)) [0..<nat n]))"
  by (simp add: drift_maml_eq [OF assms] get_column_def mult.commute)

text \<open>
  Claim C4. For \<open>epochs \<ge> 1\<close> and \<open>log_interval \<ge> 1\<close> the log_step column of the
  MAML trajectory is strictly increasing with constant step \<open>log_interval\<close>, starting
  at \<open>log_interval\<close>: its entry at index \<open>i\<close> is \<open>log_interval * (i + 1)\<close>. For
  \<open>num_points \<ge> 1\<close> the epoch column of the maml drift table is strictly increasing
  with constant step 100: its entry at index \<open>i\<close> is \<open>100 * (i + 1)\<close>.
\<close>

theorem step_sequences_increasing:
  assumes "1 \<le> e" and "1 \<le> li" and "1 \<le> n"
  shows "(\<exists>df g' steps. generate_dummy_maml_trajectory e li g = Inr (df, g') \<and>
      get_column df ''log_step'' = Inr (IntCol steps) \<and>
      length steps = nat (e div li) \<and>
      (\<forall>i<length steps. steps ! i = li * (int i + 1)) \<and>
      sorted_wrt (<) steps \<and>
      (\<forall>i. Suc i < length steps \<longrightarrow> steps ! Suc i - steps ! i = li) \<and>
      (steps \<noteq> [] \<longrightarrow> hd steps = li)) \<and>
    (\<exists>df g' epoch. generate_dummy_drift_data n ''maml'' m sd h = Inr (df, g') \<and>
      get_column df ''epoch'' = Inr (IntCol epoch) \<and>
      length epoch = nat n \<and>
      (\<forall>i<length epoch. epoch ! i = 100 * (int i + 1)) \<and>
      sorted_wrt (<) epoch \<and>
      (\<forall>i. Suc i < length epoch \<longrightarrow> epoch ! Suc i - epoch ! i = 100))"
proof (rule conjI)
  obtain df g' where r: "generate_dummy_maml_trajectory e li g = Inr (df, g')"
    and c: "get_column df ''log_step'' =
      Inr (IntCol (map (\<lambda>i. li * (int i + 1)) [0..<nat (e div li)]))"
    using maml_log_step [OF assms(2)] by blast
  note s = arithmetic_sequence [OF assms(2), of "nat (e div li)"]
  show "\<exists>df g' steps. generate_dummy_maml_trajectory e li g = Inr (df, g') \<and>
      get_column df ''log_step'' = Inr (IntCol steps) \<and>
      length steps = nat (e div li) \<and>
      (\<forall>i<length steps. steps ! i = li * (int i + 1)) \<and>
      sorted_wrt (<) steps \<and>
      (\<forall>i. Suc i < length steps \<longrightarrow> steps ! Suc i - steps ! i = li) \<and>
      (steps \<noteq> [] \<longrightarrow> hd steps = li)"
    by (intro exI conjI) (rule r c s)+
next
  obtain df g' where r: "generate_dummy_drift_data n ''maml'' m sd h = Inr (df, g')"
    and c: "get_column df ''epoch'' = Inr (IntCol (map (\<lambda>i. 100 * (int i + 1)) [0..<nat n]))"
    using drift_epoch [OF assms(3)] by blast
  have "(1::int) \<le> 100" by simp
  note s = arithmetic_sequence [OF this, of "nat n"]
  show "\<exists>df g' epoch. generate_dummy_drift_data n ''maml'' m sd h = Inr (df, g') \<and>
      get_column df ''epoch'' = Inr (IntCol epoch) \<and>
      length epoch = nat n \<and>
      (\<forall>i<length epoch. epoch ! i = 100 * (int i + 1)) \<and>
      sorted_wrt (<) epoch \<and>
      (\<forall>i. Suc i < length epoch \<longrightarrow> epoch ! Suc i - epoch ! i = 100)"
    by (intro exI conjI) (rule r c s)+
qed

text \<open>The default trajectory and a drift table of the driver.\<close>

theorem step_sequences_increasing_witness:
  "(1::int) \<le> 100 \<and> (1::int) \<le> 10 \<and>
   (\<exists>df g' steps. generate_dummy_maml_trajectory 100 10 (const_rng 0 0) = Inr (df, g') \<and>
      get_column df ''log_step'' = Inr (IntCol steps) \<and>
      length steps = 10 \<and> steps ! 0 = 10 \<and> steps ! 1 = 20 \<and> steps ! 9 = 100 \<and>
      sorted_wrt (<) steps) \<and>
   (\<exists>df g' epoch. generate_dummy_drift_data 100 ''maml'' 10 1 (const_rng 0 0) = Inr (df, g') \<and>
      get_column df ''epoch'' = Inr (IntCol epoch) \<and>
      length epoch = 100 \<and> epoch ! 0 = 100 \<and> epoch ! 1 = 200 \<and> epoch ! 99 = 10000 \<and>
      sorted_wrt (<) epoch)"
proof -
  have h: "(1::int) \<le> 100" "(1::int) \<le> 10" by simp_all
  note t = step_sequences_increasing [OF h(1) h(2) h(1), of "const_rng 0 0" 10 1 "const_rng 0 0"]
  from t obtain df g' steps where
    a: "generate_dummy_maml_trajectory 100 10 (const_rng 0 0) = Inr (df, g')"
      "get_column df ''log_step'' = Inr (IntCol steps)"
      "length steps = nat (100 div 10)"
      "\<forall>i<length steps. steps ! i = 10 * (int i + 1)"
      "sorted_wrt (<) steps"
    by (elim conjE exE)
  from t obtain df2 g2 epoch where
    b: "generate_dummy_drift_data 100 ''maml'' 10 1 (const_rng 0 0) = Inr (df2, g2)"
      "get_column df2 ''epoch'' = Inr (IntCol epoch)"
      "length epoch = nat 100"
      "\<forall>i<length epoch. epoch ! i = 100 * (int i + 1)"
      "sorted_wrt (<) epoch"
    by (elim conjE exE)
  have a': "length steps = 10" "steps ! 0 = 10" "steps ! 1 = 20" "steps ! 9 = 100"
    using a(3,4) by simp_all
  have b': "length epoch = 100" "epoch ! 0 = 100" "epoch ! 1 = 200" "epoch ! 99 = 10000"
    using b(3,4) by simp_all
  show ?thesis
    by (intro conjI exI) (rule h a(1,2,5) a' b(1,2,5) b')+
qed

subsection \<open>Row counts\<close>

lemma exact_quotient:
  fixes e li :: int
  assumes "1 \<le> e" and "1 \<le> li" and "li dvd e"
  shows "real (nat (e div li)) = real_of_int e / real_of_int li"
proof -
  from assms(3) obtain k where k: "e = li * k" ..
  have "0 \<le> k"
  proof (rule ccontr)
    assume "\<not> 0 \<le> k"
    then have "k \<le> - 1" by simp
    with assms(2) have "li * k \<le> li * - 1" by (intro mult_left_mono) simp_all
    with assms(1,2) k show False by simp
  qed
  with k assms(2) show ?thesis by simp
qed

text \<open>
  Claim C5, as amended. For \<open>epochs \<ge> 1\<close> and \<open>log_interval \<ge> 1\<close> the MAML
  generator returns a table with its four declared columns and exactly
  \<open>floor (epochs / log_interval)\<close> rows, which is \<open>epochs / log_interval\<close> when
  \<open>log_interval\<close> divides \<open>epochs\<close>. For \<open>N \<ge> 1\<close> the SGD generator returns its
  six declared columns and exactly \<open>N\<close> rows, and the drift generator returns exactly
  \<open>N\<close> rows with its declared columns for type maml and, for a non-negative
  \<open>final_drift_std\<close>, for type sgd.
\<close>

theorem row_counts:
  assumes "1 \<le> e" and "1 \<le> li" and "1 \<le> N" and "0 \<le> sd"
  shows "(\<exists>df g'. generate_dummy_maml_trajectory e li g = Inr (df, g') \<and>
      column_names df = [''log_step'', ''val_loss'', ''val_accuracy'', ''grad_alignment''] \<and>
      len_df df = nat (e div li) \<and>
      list_all (\<lambda>c. col_len (snd c) = nat (e div li)) (columns df) \<and>
      (li dvd e \<longrightarrow> real (len_df df) = real_of_int e / real_of_int li)) \<and>
    (\<exists>df g'. generate_dummy_sgd_trajectory N g = Inr (df, g') \<and>
      column_names df = [''task_idx'', ''query_loss'', ''query_accuracy'',
        ''final_support_loss'', ''num_sgd_steps'', ''lr''] \<and>
      len_df df = nat N \<and>
      list_all (\<lambda>c. col_len (snd c) = nat N) (columns df)) \<and>
    (\<exists>df g'. generate_dummy_drift_data N ''maml'' m sd g = Inr (df, g') \<and>
      column_names df = [''epoch'', ''l2_drift_from_init'', ''l2_drift_from_previous''] \<and>
      len_df df = nat N \<and>
      list_all (\<lambda>c. col_len (snd c) = nat N) (columns df)) \<and>
    (\<exists>df g'. generate_dummy_drift_data N ''sgd'' m sd g = Inr (df, g') \<and>
      column_names df = [''final_l2_drift_from_init''] \<and>
      len_df df = nat N \<and>
      list_all (\<lambda>c. col_len (snd c) = nat N) (columns df))"
proof (intro conjI)
  show "\<exists>df g'. generate_dummy_maml_trajectory e li g = Inr (df, g') \<and>
      column_names df = [''log_step'', ''val_loss'', ''val_accuracy'', ''grad_alignment''] \<and>
      len_df df = nat (e div li) \<and>
      list_all (\<lambda>c. col_len (snd c) = nat (e div li)) (columns df) \<and>
      (li dvd e \<longrightarrow> real (len_df df) = real_of_int e / real_of_int li)"
    using exact_quotient [OF assms(1,2)]
    by (simp add: maml_trajectory_eq [OF assms(2)] column_names_def len_df_def)
  show "\<exists>df g'. generate_dummy_sgd_trajectory N g = Inr (df, g') \<and>
      column_names df = [''task_idx'', ''query_loss'', ''query_accuracy'',
        ''final_support_loss'', ''num_sgd_steps'', ''lr''] \<and>
      len_df df = nat N \<and>
      list_all (\<lambda>c. col_len (snd c) = nat N) (columns df)"
    using assms(3) by (simp add: sgd_trajectory_eq column_names_def len_df_def)
  show "\<exists>df g'. generate_dummy_drift_data N ''maml'' m sd g = Inr (df, g') \<and>
      column_names df = [''epoch'', ''l2_drift_from_init'', ''l2_drift_from_previous''] \<and>
      len_df df = nat N \<and>
      list_all (\<lambda>c. col_len (snd c) = nat N) (columns df)"
    by (simp add: drift_maml_eq [OF assms(3)] column_names_def len_df_def)
  show "\<exists>df g'. generate_dummy_drift_data N ''sgd'' m sd g = Inr (df, g') \<and>
      column_names df = [''final_l2_drift_from_init''] \<and>
      len_df df = nat N \<and>
      list_all (\<lambda>c. col_len (snd c) = nat N) (columns df)"
    using assms(3,4) by (simp add: drift_sgd_eq column_names_def len_df_def)
qed

text \<open>
  The claim as stated, with the quotient \<open>epochs / log_interval\<close> itself as the row
  count, fails when the interval does not divide the epochs: \<open>epochs = 100\<close> and
  \<open>log_interval = 30\<close> give the steps 30, 60, 90, three rows, and \<open>100 / 30\<close> is not 3.
\<close>

theorem row_counts_counterexample:
  "\<exists>df g'. generate_dummy_maml_trajectory 100 30 (const_rng 0 0) = Inr (df, g') \<and>
     len_df df = 3 \<and> real (len_df df) \<noteq> 100 / 30"
  by (simp add: maml_trajectory_eq [of 30 100] len_df_def)

text \<open>The driver's calls: 10000 epochs logged every 100, and 200 tasks or points.\<close>

theorem row_counts_witness:
  "(1::int) \<le> 10000 \<and> (1::int) \<le> 100 \<and> (1::int) \<le> 200 \<and> (0::real) \<le> 2 \<and>
   (\<exists>df g'. generate_dummy_maml_trajectory 10000 100 (const_rng 0 0) = Inr (df, g') \<and>
      len_df df = 100 \<and> real (len_df df) = 10000 / 100) \<and>
   (\<exists>df g'. generate_dummy_sgd_trajectory 200 (const_rng 0 0) = Inr (df, g') \<and>
      len_df df = 200) \<and>
   (\<exists>df g'. generate_dummy_drift_data 200 ''maml'' 8 2 (const_rng 0 0) = Inr (df, g') \<and>
      len_df df = 200) \<and>
   (\<exists>df g'. generate_dummy_drift_data 200 ''sgd'' 8 2 (const_rng 0 0) = Inr (df, g') \<and>
      len_df df = 200)"
proof -
  have h: "(1::int) \<le> 10000" "(1::int) \<le> 100" "(1::int) \<le> 200" "(0::real) \<le> 2"
    by simp_all
  note t = row_counts [OF h, of "const_rng 0 0" 8]
  have d: "(100::int) dvd 10000" by simp
  from t obtain df1 g1 where
    a: "generate_dummy_maml_trajectory 10000 100 (const_rng 0 0) = Inr (df1, g1)"
      "len_df df1 = nat (10000 div 100)"
      "100 dvd (10000::int) \<longrightarrow> real (len_df df1) = real_of_int 10000 / real_of_int 100"
    by (elim conjE exE)
  from t obtain df2 g2 where
    b: "generate_dummy_sgd_trajectory 200 (const_rng 0 0) = Inr (df2, g2)"
      "len_df df2 = nat 200"
    by (elim conjE exE)
  from t obtain df3 g3 where
    c: "generate_dummy_drift_data 200 ''maml'' 8 2 (const_rng 0 0) = Inr (df3, g3)"
      "len_df df3 = nat 200"
    by (elim conjE exE)
  from t obtain df4 g4 where
    e: "generate_dummy_drift_data 200 ''sgd'' 8 2 (const_rng 0 0) = Inr (df4, g4)"
      "len_df df4 = nat 200"
    by (elim conjE exE)
  have a': "len_df df1 = 100" "real (len_df df1) = 10000 / 100"
    using a(2,3) d by simp_all
  have b': "len_df df2 = 200" "len_df df3 = 200" "len_df df4 = 200"
    using b(2) c(2) e(2) by simp_all
  show ?thesis
    by (intro conjI exI) (rule h a(1) a' b(1) b' c(1) e(1))+
qed

subsection \<open>Trend and noise of the trajectory columns\<close>

lemma trend_shapes:
  "0.7 - 0.3 * (1 - exp (- x / (X * 0.3))) = saturating_trend 0.4 0.7 0.3 X x"
  "0.5 + 0.4 * (1 - exp (- x / (X * 0.4))) = saturating_trend 0.9 0.5 0.4 X x"
  "0.1 + 0.6 * (1 - exp (- x / (X * 0.5))) = saturating_trend 0.7 0.1 0.5 X x"
  "0.6 - 0.2 * (1 - exp (- x / (X * 0.5))) = saturating_trend 0.4 0.6 0.5 X x"
  "0.55 + 0.3 * (1 - exp (- x / (X * 0.6))) = saturating_trend 0.85 0.55 0.6 X x"
  by (simp_all add: saturating_trend_def algebra_simps)

lemma maml_trajectory_trends:
  assumes "1 \<le> li"
  shows "generate_dummy_maml_trajectory e li g =
    Inr (\<lparr>index_len = nat (e div li), columns =
      [(''log_step'', IntCol (map (\<lambda>i. li * (int i + 1)) [0..<nat (e div li)])),
       (''val_loss'', FloatCol (map (\<lambda>i.
          saturating_trend 0.4 0.7 0.3 (real_of_int e) (real_of_int (li * (int i + 1)))
            + 0.02 * std_normal g (used g + i)) [0..<nat (e div li)])),
       (''val_accuracy'', FloatCol (map (\<lambda>i. min (max
          (saturating_trend 0.9 0.5 0.4 (real_of_int e) (real_of_int (li * (int i + 1)))
            + 0.02 * std_normal g (used g + nat (e div li) + i)) 0) 1) [0..<nat (e div li)])),
       (''grad_alignment'', FloatCol (map (\<lambda>i.
          saturating_trend 0.7 0.1 0.5 (real_of_int e) (real_of_int (li * (int i + 1)))
            + 0.05 * std_normal g (used g + nat (e div li) + nat (e div li) + i))
          [0..<nat (e div li)]))]\<rparr>,
      g\<lparr>used := used g + nat (e div li) + nat (e div li) + nat (e div li)\<rparr>)"
  using maml_trajectory_eq [OF assms, of e g] unfolding trend_shapes .

lemma sgd_trajectory_trends:
  assumes "0 \<le> N"
  shows "generate_dummy_sgd_trajectory N g =
    Inr (\<lparr>index_len = nat N, columns =
      [(''task_idx'', IntCol (map int [0..<nat N])),
       (''query_loss'', FloatCol (map (\<lambda>i.
          saturating_trend 0.4 0.6 0.5 (real_of_int N) (real i)
            + 0.03 * std_normal g (used g + i)) [0..<nat N])),
       (''query_accuracy'', FloatCol (map (\<lambda>i. min (max
          (saturating_trend 0.85 0.55 0.6 (real_of_int N) (real i)
            + 0.03 * std_normal g (used g + nat N + i)) 0) 1) [0..<nat N])),
       (''final_support_loss'', FloatCol (map (\<lambda>i.
          uniform01 g (used g + nat N + nat N + i) * 0.1) [0..<nat N])),
       (''num_sgd_steps'', IntCol (replicate (nat N) 100)),
       (''lr'', FloatCol (replicate (nat N) 0.001))]\<rparr>,
      g\<lparr>used := used g + nat N + nat N + nat N\<rparr>)"
  using sgd_trajectory_eq [OF assms, of g] unfolding trend_shapes .

lemma no_trend_fits:
  assumes a0: "saturating_trend t s d 3 0 = 1 / 20"
    and a1: "saturating_trend t s d 3 1 = 0"
    and a2: "saturating_trend t s d 3 2 = 1 / 20"
  shows False
proof -
  from a0 have s: "s = 1 / 20" by (simp add: saturating_trend_def)
  define E where "E = exp (- 2 / (3 * d))"
  have a2': "t - (t - s) * E = 1 / 20"
    using a2 unfolding saturating_trend_def E_def .
  have a2'': "t - (t - s) * E = s"
    by (rule trans [OF a2' s [symmetric]])
  have "(t - s) * (1 - E) = (t - (t - s) * E) - s" by (simp add: algebra_simps)
  also have "\<dots> = 0" by (simp only: a2'' diff_self)
  finally consider "t = s" | "exp (- 2 / (3 * d)) = 1" unfolding E_def by auto
  then show False
  proof cases
    case 1
    with a1 s show False by (simp add: saturating_trend_def)
  next
    case 2
    then have "d = 0" by simp
    with a1 s show False by (simp add: saturating_trend_def)
  qed
qed

text \<open>
  Claim C9, as amended. With \<open>x_max\<close> the number of epochs and \<open>x\<close> the log step,
  val_loss and grad_alignment of the MAML trajectory equal the specification's
  saturating trend plus a normal variate scaled by the column's fixed standard deviation
  (targets 0.4 and 0.7, starts 0.7 and 0.1, decay fractions 0.3 and 0.5, deviations 0.02
  and 0.05), and val_accuracy equals such a sum (target 0.9, start 0.5, decay 0.4,
  deviation 0.02) clipped into \<open>[0, 1]\<close>. With \<open>x_max\<close> the number of tasks and
  \<open>x\<close> the task index, query_loss of the SGD trajectory equals trend plus noise
  (target 0.4, start 0.6, decay 0.5, deviation 0.03) and query_accuracy equals such a sum
  (target 0.85, start 0.55, decay 0.6, deviation 0.03) clipped into \<open>[0, 1]\<close>. Every
  row of every column draws its own variate of the stream. final_support_loss has no
  trend and no normal noise: it is a uniform variate times 0.1.
\<close>

theorem trend_plus_noise:
  assumes "1 \<le> li" and "1 \<le> N"
  shows "(\<exists>df g'. generate_dummy_maml_trajectory e li g = Inr (df, g') \<and>
      get_column df ''val_loss'' = Inr (FloatCol (map (\<lambda>i.
        saturating_trend 0.4 0.7 0.3 (real_of_int e) (real_of_int (li * (int i + 1)))
          + 0.02 * std_normal g (used g + i)) [0..<nat (e div li)])) \<and>
      get_column df ''val_accuracy'' = Inr (FloatCol (map (\<lambda>i. min (max
        (saturating_trend 0.9 0.5 0.4 (real_of_int e) (real_of_int (li * (int i + 1)))
          + 0.02 * std_normal g (used g + nat (e div li) + i)) 0) 1) [0..<nat (e div li)])) \<and>
      get_column df ''grad_alignment'' = Inr (FloatCol (map (\<lambda>i.
        saturating_trend 0.7 0.1 0.5 (real_of_int e) (real_of_int (li * (int i + 1)))
          + 0.05 * std_normal g (used g + nat (e div li) + nat (e div li) + i))
        [0..<nat (e div li)]))) \<and>
    (\<exists>df g'. generate_dummy_sgd_trajectory N h = Inr (df, g') \<and>
      get_column df ''query_loss'' = Inr (FloatCol (map (\<lambda>i.
        saturating_trend 0.4 0.6 0.5 (real_of_int N) (real i)
          + 0.03 * std_normal h (used h + i)) [0..<nat N])) \<and>
      get_column df ''query_accuracy'' = Inr (FloatCol (map (\<lambda>i. min (max
        (saturating_trend 0.85 0.55 0.6 (real_of_int N) (real i)
          + 0.03 * std_normal h (used h + nat N + i)) 0) 1) [0..<nat N])) \<and>
      get_column df ''final_support_loss'' = Inr (FloatCol (map (\<lambda>i.
        uniform01 h (used h + nat N + nat N + i) * 0.1) [0..<nat N])))"
proof (rule conjI)
  show "\<exists>df g'. generate_dummy_maml_trajectory e li g = Inr (df, g') \<and>
      get_column df ''val_loss'' = Inr (FloatCol (map (\<lambda>i.
        saturating_trend 0.4 0.7 0.3 (real_of_int e) (real_of_int (li * (int i + 1)))
          + 0.02 * std_normal g (used g + i)) [0..<nat (e div li)])) \<and>
      get_column df ''val_accuracy'' = Inr (FloatCol (map (\<lambda>i. min (max
        (saturating_trend 0.9 0.5 0.4 (real_of_int e) (real_of_int (li * (int i + 1)))
          + 0.02 * std_normal g (used g + nat (e div li) + i)) 0) 1) [0..<nat (e div li)])) \<and>
      get_column df ''grad_alignment'' = Inr (FloatCol (map (\<lambda>i.
        saturating_trend 0.7 0.1 0.5 (real_of_int e) (real_of_int (li * (int i + 1)))
          + 0.05 * std_normal g (used g + nat (e div li) + nat (e div li) + i))
        [0..<nat (e div li)]))"
    unfolding maml_trajectory_trends [OF assms(1)] by (simp add: get_column_def)
  from assms(2) have "0 \<le> N" by simp
  then show "\<exists>df g'. generate_dummy_sgd_trajectory N h = Inr (df, g') \<and>
      get_column df ''query_loss'' = Inr (FloatCol (map (\<lambda>i.
        saturating_trend 0.4 0.6 0.5 (real_of_int N) (real i)
          + 0.03 * std_normal h (used h + i)) [0..<nat N])) \<and>
      get_column df ''query_accuracy'' = Inr (FloatCol (map (\<lambda>i. min (max
        (saturating_trend 0.85 0.55 0.6 (real_of_int N) (real i)
          + 0.03 * std_normal h (used h + nat N + i)) 0) 1) [0..<nat N])) \<and>
      get_column df ''final_support_loss'' = Inr (FloatCol (map (\<lambda>i.
        uniform01 h (used h + nat N + nat N + i) * 0.1) [0..<nat N]))"
    by (simp add: sgd_trajectory_trends get_column_def)
qed

lemma dip_support_loss:
  "generate_dummy_sgd_trajectory 3 dip_rng = Inr (df, g') \<Longrightarrow>
   get_column df ''final_support_loss'' = Inr (FloatCol [1 / 20, 0, 1 / 20])"
  by (auto simp: sgd_trajectory_eq [of 3] dip_rng_def get_column_def numeral_3_eq_3)

lemma clipped_first_row:
  "\<exists>df g' xs. generate_dummy_maml_trajectory 100 10 (const_rng 100 0) = Inr (df, g') \<and>
     get_column df ''val_accuracy'' = Inr (FloatCol xs) \<and> length xs = 10 \<and>
     xs ! 0 \<noteq> saturating_trend 0.9 0.5 0.4 100 10 + 0.02 * 100"
proof -
  define T where "T = saturating_trend 0.9 0.5 0.4 100 10"
  have mono: "E \<le> 1 \<Longrightarrow> 1 / 2 \<le> 0.9 - (0.9 - 0.5) * E" for E :: real
    by simp
  have "1 / 2 \<le> T" unfolding T_def saturating_trend_def
    by (rule mono) simp
  then have ne: "min (max (T + 0.02 * 100) 0) 1 \<noteq> T + 0.02 * 100" by simp
  have "\<exists>df g'. generate_dummy_maml_trajectory 100 10 (const_rng 100 0) = Inr (df, g') \<and>
     get_column df ''val_accuracy'' = Inr (FloatCol (map (\<lambda>i. min (max
        (saturating_trend 0.9 0.5 0.4 (real_of_int 100) (real_of_int (10 * (int i + 1)))
          + 0.02 * std_normal (const_rng 100 0) (used (const_rng 100 0) + nat (100 div 10) + i)) 0) 1)
        [0..<nat (100 div 10)]))"
    unfolding maml_trajectory_trends [of 10 100 "const_rng 100 0", simplified]
    by (simp add: get_column_def)
  then obtain df g' where
    r: "generate_dummy_maml_trajectory 100 10 (const_rng 100 0) = Inr (df, g')"
    and c: "get_column df ''val_accuracy'' = Inr (FloatCol (map (\<lambda>i. min (max
        (saturating_trend 0.9 0.5 0.4 (real_of_int 100) (real_of_int (10 * (int i + 1)))
          + 0.02 * std_normal (const_rng 100 0) (used (const_rng 100 0) + nat (100 div 10) + i)) 0) 1)
        [0..<nat (100 div 10)]))"
    by blast
  have "map (\<lambda>i. min (max
        (saturating_trend 0.9 0.5 0.4 (real_of_int 100) (real_of_int (10 * (int i + 1)))
          + 0.02 * std_normal (const_rng 100 0) (used (const_rng 100 0) + nat (100 div 10) + i)) 0) 1)
        [0..<nat (100 div 10)] ! 0 = min (max (T + 0.02 * 100) 0) 1"
    unfolding T_def by (simp add: const_rng_def)
  with ne r c show ?thesis unfolding T_def
    by (intro exI conjI) (assumption | simp)+
qed

text \<open>
  The claim as stated fails for final_support_loss: with all normal variates zero and
  uniform variates 1/2, 0, 1/2, three tasks give the column 0.05, 0, 0.05, which no
  target, start and decay fraction of the trend shape produce, whatever the deviation.
  It also fails for a clipped accuracy: with normal variates of 100 the first
  val_accuracy is not its trend plus noise.
\<close>

theorem trend_plus_noise_counterexample:
  "(\<exists>df g'. generate_dummy_sgd_trajectory 3 dip_rng = Inr (df, g') \<and>
      get_column df ''final_support_loss'' = Inr (FloatCol [1 / 20, 0, 1 / 20])) \<and>
   \<not> (\<exists>target start d sigma pos df g'.
      generate_dummy_sgd_trajectory 3 dip_rng = Inr (df, g') \<and>
      get_column df ''final_support_loss'' = Inr (FloatCol (map (\<lambda>i.
        saturating_trend target start d 3 (real i) + sigma * std_normal dip_rng (pos i))
        [0..<3]))) \<and>
   (\<exists>df g' xs. generate_dummy_maml_trajectory 100 10 (const_rng 100 0) = Inr (df, g') \<and>
      get_column df ''val_accuracy'' = Inr (FloatCol xs) \<and> length xs = 10 \<and>
      xs ! 0 \<noteq> saturating_trend 0.9 0.5 0.4 100 10 + 0.02 * 100)"
proof (intro conjI)
  obtain df g' where r: "generate_dummy_sgd_trajectory 3 dip_rng = Inr (df, g')"
    by (simp add: sgd_trajectory_eq [of 3])
  with dip_support_loss [OF r]
  show "\<exists>df g'. generate_dummy_sgd_trajectory 3 dip_rng = Inr (df, g') \<and>
      get_column df ''final_support_loss'' = Inr (FloatCol [1 / 20, 0, 1 / 20])"
    by blast
  show "\<not> (\<exists>target start d sigma pos df g'.
      generate_dummy_sgd_trajectory 3 dip_rng = Inr (df, g') \<and>
      get_column df ''final_support_loss'' = Inr (FloatCol (map (\<lambda>i.
        saturating_trend target start d 3 (real i) + sigma * std_normal dip_rng (pos i))
        [0..<3])))"
  proof
    assume "\<exists>target start d sigma pos df g'.
      generate_dummy_sgd_trajectory 3 dip_rng = Inr (df, g') \<and>
      get_column df ''final_support_loss'' = Inr (FloatCol (map (\<lambda>i.
        saturating_trend target start d 3 (real i) + sigma * std_normal dip_rng (pos i))
        [0..<3]))"
    then obtain t s d sigma pos df g' where
      r: "generate_dummy_sgd_trajectory 3 dip_rng = Inr (df, g')"
      and c: "get_column df ''final_support_loss'' = Inr (FloatCol (map (\<lambda>i.
        saturating_trend t s d 3 (real i) + sigma * std_normal dip_rng (pos i)) [0..<3]))"
      by blast
    have z: "std_normal dip_rng k = 0" for k by (simp add: dip_rng_def)
    from c dip_support_loss [OF r]
    have "map (\<lambda>i. saturating_trend t s d 3 (real i)) [0..<3] = [1 / 20, 0, 1 / 20]"
      by (simp add: z)
    then have "saturating_trend t s d 3 0 = 1 / 20" "saturating_trend t s d 3 1 = 0"
      "saturating_trend t s d 3 2 = 1 / 20"
      by (simp_all add: numeral_3_eq_3 numeral_2_eq_2)
    then show False by (rule no_trend_fits)
  qed
  show "\<exists>df g' xs. generate_dummy_maml_trajectory 100 10 (const_rng 100 0) = Inr (df, g') \<and>
      get_column df ''val_accuracy'' = Inr (FloatCol xs) \<and> length xs = 10 \<and>
      xs ! 0 \<noteq> saturating_trend 0.9 0.5 0.4 100 10 + 0.02 * 100"
    by (rule clipped_first_row)
qed

text \<open>The default trajectories without noise are the bare trends.\<close>

theorem trend_plus_noise_witness:
  "(1::int) \<le> 10 \<and> (1::int) \<le> 50 \<and>
   (\<exists>df g'. generate_dummy_maml_trajectory 100 10 (const_rng 0 0) = Inr (df, g') \<and>
      get_column df ''val_loss'' = Inr (FloatCol (map (\<lambda>i.
        saturating_trend 0.4 0.7 0.3 100 (real_of_int (10 * (int i + 1)))) [0..<10]))) \<and>
   (\<exists>df g'. generate_dummy_sgd_trajectory 50 (const_rng 0 0) = Inr (df, g') \<and>
      get_column df ''query_loss'' = Inr (FloatCol (map (\<lambda>i.
        saturating_trend 0.4 0.6 0.5 50 (real i)) [0..<50])) \<and>
      get_column df ''final_support_loss'' = Inr (FloatCol (replicate 50 0)))"
proof -
  have h: "(1::int) \<le> 10" "(1::int) \<le> 50" by simp_all
  note t = trend_plus_noise [OF h, of 100 "const_rng 0 0" "const_rng 0 0"]
  from t obtain df g' where
    a: "generate_dummy_maml_trajectory 100 10 (const_rng 0 0) = Inr (df, g')"
      "get_column df ''val_loss'' = Inr (FloatCol (map (\<lambda>i.
        saturating_trend 0.4 0.7 0.3 (real_of_int 100) (real_of_int (10 * (int i + 1)))
          + 0.02 * std_normal (const_rng 0 0) (used (const_rng 0 0) + i))
        [0..<nat (100 div 10)]))"
    by (elim conjE exE)
  from t obtain df2 g2 where
    b: "generate_dummy_sgd_trajectory 50 (const_rng 0 0) = Inr (df2, g2)"
      "get_column df2 ''query_loss'' = Inr (FloatCol (map (\<lambda>i.
        saturating_trend 0.4 0.6 0.5 (real_of_int 50) (real i)
          + 0.03 * std_normal (const_rng 0 0) (used (const_rng 0 0) + i)) [0..<nat 50]))"
      "get_column df2 ''final_support_loss'' = Inr (FloatCol (map (\<lambda>i.
        uniform01 (const_rng 0 0) (used (const_rng 0 0) + nat 50 + nat 50 + i) * 0.1)
        [0..<nat 50]))"
    by (elim conjE exE)
  have a': "get_column df ''val_loss'' = Inr (FloatCol (map (\<lambda>i.
        saturating_trend 0.4 0.7 0.3 100 (real_of_int (10 * (int i + 1)))) [0..<10]))"
    using a(2) by (simp add: const_rng_def)
  have b': "get_column df2 ''query_loss'' = Inr (FloatCol (map (\<lambda>i.
        saturating_trend 0.4 0.6 0.5 50 (real i)) [0..<50]))"
    "get_column df2 ''final_support_loss'' = Inr (FloatCol (replicate 50 0))"
    using b(2,3) by (simp_all add: const_rng_def map_replicate_const)
  show ?thesis
    by (intro conjI exI) (rule h a(1) a' b(1) b')+
qed

subsection \<open>An unknown drift type\<close>

text \<open>
  Claim C10. For a type argument other than maml and sgd the drift generator raises
  nothing, whatever the other arguments: it returns the empty table, with zero rows and
  zero columns, and draws no random number.
\<close>

theorem unknown_type_empty_table:
  assumes "type \<noteq> ''maml''" and "type \<noteq> ''sgd''"
  shows "\<exists>df. generate_dummy_drift_data n type m sd g = Inr (df, g) \<and>
    len_df df = 0 \<and> column_names df = [] \<and> df_empty df"
  using assms
  by (simp add: drift_other_eq empty_DataFrame_def len_df_def column_names_def df_empty_def)

text \<open>A call whose count and deviation are negative still returns the empty table.\<close>

theorem unknown_type_empty_table_witness:
  "''linear'' \<noteq> ''maml'' \<and> ''linear'' \<noteq> ''sgd'' \<and>
   (\<exists>df. generate_dummy_drift_data (- 5) ''linear'' 5 (- 1) (const_rng 0 0) =
      Inr (df, const_rng 0 0) \<and>
    len_df df = 0 \<and> column_names df = [] \<and> df_empty df)"
proof -
  have h: "''linear'' \<noteq> ''maml''" "''linear'' \<noteq> ''sgd''" by simp_all
  from unknown_type_empty_table [OF h, of "- 5" 5 "- 1" "const_rng 0 0"] h
  show ?thesis by (intro conjI)
qed

end
